theory Spec2Isabelle
  imports Main "HOL-Library.Word"
begin

unbundle bit_operations_syntax

section \<open>Execution-mode bits of \<^verbatim>\<open>kernel/cobalt/posix/syscall.c\<close>\<close>

text \<open>
  The per-call execution mode is a C \<^verbatim>\<open>int\<close> used as a bit mask, so it is a 32-bit word
  here. The constants carry the values of the \<^verbatim>\<open>#define\<close>s at the top of the source file
  (the leading underscores of the C names are dropped).
\<close>

definition xn_exec_lostage :: "32 word" where "xn_exec_lostage = 0x1"
definition xn_exec_histage :: "32 word" where "xn_exec_histage = 0x2"
definition xn_exec_shadow :: "32 word" where "xn_exec_shadow = 0x4"
definition xn_exec_switchback :: "32 word" where "xn_exec_switchback = 0x8"
definition xn_exec_current :: "32 word" where "xn_exec_current = 0x10"
definition xn_exec_conforming :: "32 word" where "xn_exec_conforming = 0x20"
definition xn_exec_adaptive :: "32 word" where "xn_exec_adaptive = 0x40"
definition xn_exec_norestart :: "32 word" where "xn_exec_norestart = 0x80"

definition xn_exec_init :: "32 word" where
  "xn_exec_init = xn_exec_lostage"
definition xn_exec_primary :: "32 word" where
  "xn_exec_primary = (xn_exec_shadow OR xn_exec_histage)"
definition xn_exec_secondary :: "32 word" where
  "xn_exec_secondary = (xn_exec_shadow OR xn_exec_lostage)"
definition xn_exec_downup :: "32 word" where
  "xn_exec_downup = (xn_exec_lostage OR xn_exec_switchback)"
definition xn_exec_nonrestartable :: "32 word" where
  "xn_exec_nonrestartable = (xn_exec_primary OR xn_exec_norestart)"
definition xn_exec_probing :: "32 word" where
  "xn_exec_probing = (xn_exec_conforming OR xn_exec_adaptive)"
definition xn_exec_oneway :: "32 word" where
  "xn_exec_oneway = xn_exec_norestart"

text \<open>The C test \<^verbatim>\<open>(sysflags & m) != 0\<close>.\<close>

definition flag_set :: "32 word \<Rightarrow> 32 word \<Rightarrow> bool" where
  "flag_set sysflags m \<longleftrightarrow> sysflags AND m \<noteq> 0"

text \<open>
  The mask of the adaptive restart:
  \<^verbatim>\<open>sysflags ^= (__xn_exec_lostage | __xn_exec_histage | __xn_exec_adaptive)\<close>.
\<close>

definition adaptive_flip :: "32 word \<Rightarrow> 32 word" where
  "adaptive_flip sysflags =
     sysflags XOR (xn_exec_lostage OR xn_exec_histage OR xn_exec_adaptive)"

text \<open>The error numbers the dispatchers use, with their Linux values.\<close>

definition EPERM :: int where "EPERM = 1"
definition EINTR :: int where "EINTR = 4"
definition ENOSYS :: int where "ENOSYS = 38"
definition ERESTARTSYS :: int where "ERESTARTSYS = 512"

section \<open>State\<close>

datatype kevent = KEVENT_PROPAGATE | KEVENT_STOP

datatype ipipe_domain = xnsched_realtime_domain | ipipe_root_domain

datatype sigdebug = SIGDEBUG_NONE | SIGDEBUG_MIGRATE_SIGNAL | SIGDEBUG_MIGRATE_SYSCALL

text \<open>
  What the dispatchers ask of their collaborators is recorded in a log, in order:
  a relax with its \<^verbatim>\<open>notify\<close> argument and its cause, an attempt to harden with its return
  code, an invocation of the call's handler (with the domain the thread was in when the
  handler was entered: \<open>True\<close> is primary mode), the clearing of \<^verbatim>\<open>XNKICKED\<close>, and the exit
  of the thread through cancellation.
\<close>

datatype event =
    EvRelax bool sigdebug
  | EvHarden int
  | EvHandler bool
  | EvClearKicked
  | EvCancel

text \<open>
  The part of the machine that handlers and the real-time core may read and change:
  \<open>primary\<close> is \<^verbatim>\<open>!xnsched_root_p()\<close> (and \<^verbatim>\<open>xnsched_primary_p()\<close>), \<open>cur_thread\<close> is
  \<^verbatim>\<open>xnthread_current() != NULL\<close>, then the info bits \<^verbatim>\<open>XNKICKED\<close>, \<^verbatim>\<open>XNBREAK\<close>,
  \<^verbatim>\<open>XNCANCELD\<close>, the state bits \<^verbatim>\<open>XNDEBUG\<close> and \<^verbatim>\<open>XNWEAK\<close>, \<^verbatim>\<open>thread->res_count\<close>,
  \<^verbatim>\<open>signal_pending(current)\<close>, \<^verbatim>\<open>cobalt_current_process() != NULL\<close>, whether
  \<^verbatim>\<open>cobalt_search_process(current->mm)\<close> finds a process, \<^verbatim>\<open>cap_raised(current_cap(),
  CAP_SYS_NICE)\<close>, and the counter \<^verbatim>\<open>thread->stat.xsc\<close>.
\<close>

record world =
  primary :: bool
  cur_thread :: bool
  kicked :: bool
  brk :: bool
  canceld :: bool
  debugged :: bool
  weak :: bool
  res_count :: nat
  sigpending :: bool
  cur_process :: bool
  mm_process :: bool
  cap_sys_nice :: bool
  xsc :: nat

text \<open>
  The call frame: \<^verbatim>\<open>__xn_syscall_p(regs)\<close>, \<^verbatim>\<open>__xn_syscall(regs)\<close>, the five arguments of
  \<^verbatim>\<open>__xn_reg_arglist(regs)\<close> and the status slot \<^verbatim>\<open>__xn_reg_rval(regs)\<close>.
\<close>

record pt_regs =
  syscall_p :: bool
  sysnr :: int
  arglist :: "nat list"
  rval :: int

record kstate =
  w :: world
  regs :: pt_regs
  klog :: "event list"

text \<open>
  A handler takes the decoded arguments, returns a status and may change the world
  (migrate the caller, block until a signal is pending, create a thread control block).
\<close>

type_synonym cobalt_syshand = "nat list \<Rightarrow> world \<Rightarrow> int \<times> world"

text \<open>
  What the source file takes from elsewhere is a parameter: \<^verbatim>\<open>__NR_COBALT_SYSCALLS\<close>, the
  index \<^verbatim>\<open>sc_cobalt_bind\<close>, the two tables \<^verbatim>\<open>cobalt_syscalls[]\<close> and \<^verbatim>\<open>cobalt_sysmodes[]\<close>
  (their indices \<^verbatim>\<open>sc_cobalt_*\<close> come from a header), and the return code that
  \<^verbatim>\<open>xnthread_harden()\<close> would give in a world (0 for success).
\<close>

record config =
  nr_cobalt_syscalls :: int
  sc_cobalt_bind :: int
  cobalt_syscalls :: "int \<Rightarrow> cobalt_syshand"
  cobalt_sysmodes :: "int \<Rightarrow> 32 word"
  harden_rc :: "world \<Rightarrow> int"

text \<open>
  A path of a dispatcher either returns, or leaves the dispatcher for good: the thread exits
  through cancellation, or the relaxed-domain dispatcher indexes its tables outside
  \<^verbatim>\<open>[0, __NR_COBALT_SYSCALLS)\<close> (it has no range check; in C the read is undefined).
\<close>

datatype abort = ThreadExit | OutOfBounds

type_synonym 'a flow = "(abort \<times> kstate) + 'a"

section \<open>Collaborators\<close>

text \<open>
  Modelled from the spec: \<^verbatim>\<open>xnthread_relax(notify, reason)\<close> is defined in the real-time
  core, outside this file. "Enter relaxed domain (always succeeds, optionally notifies a
  debug/trace observer and reports a migration cause)".
\<close>

definition xnthread_relax :: "bool \<Rightarrow> sigdebug \<Rightarrow> kstate \<Rightarrow> kstate" where
  "xnthread_relax notify reason s =
     s\<lparr>w := (w s)\<lparr>primary := False\<rparr>, klog := klog s @ [EvRelax notify reason]\<rparr>"

text \<open>
  Modelled from the spec: \<^verbatim>\<open>xnthread_harden()\<close> is defined in the real-time core. "Enter
  control domain (may fail)": a synchronous migration to the control domain that returns 0,
  or an error code and no migration.
\<close>

definition xnthread_harden :: "config \<Rightarrow> kstate \<Rightarrow> int \<times> kstate" where
  "xnthread_harden cfg s =
     (let r = harden_rc cfg (w s)
      in (r, (if r = 0 then s\<lparr>w := (w s)\<lparr>primary := True\<rparr>\<rparr> else s)
               \<lparr>klog := klog s @ [EvHarden r]\<rparr>))"

text \<open>
  Modelled from the spec: \<^verbatim>\<open>xnthread_test_cancel()\<close> is defined in the real-time core. "If
  cancellation has been requested for the calling thread, [...] the thread proceeds to
  cooperative cancellation before returning to the caller"; "cooperative cancellation takes
  over control flow entirely; no ordinary status is returned to the original caller".
\<close>

definition xnthread_test_cancel :: "kstate \<Rightarrow> kstate flow" where
  "xnthread_test_cancel s =
     (if canceld (w s) then Inl (ThreadExit, s\<lparr>klog := klog s @ [EvCancel]\<rparr>) else Inr s)"

text \<open>
  \<^verbatim>\<open>__xn_error_return(regs, v)\<close> and \<^verbatim>\<open>__xn_status_return(regs, v)\<close> (per-architecture
  macros) both store \<open>v\<close> in the status slot of the frame.
\<close>

definition xn_error_return :: "int \<Rightarrow> kstate \<Rightarrow> kstate" where
  "xn_error_return v s = s\<lparr>regs := (regs s)\<lparr>rval := v\<rparr>\<rparr>"

definition xn_status_return :: "int \<Rightarrow> kstate \<Rightarrow> kstate" where
  "xn_status_return v s = s\<lparr>regs := (regs s)\<lparr>rval := v\<rparr>\<rparr>"

text \<open>\<^verbatim>\<open>ret = handler(__xn_reg_arglist(regs))\<close>\<close>

definition call_handler :: "cobalt_syshand \<Rightarrow> kstate \<Rightarrow> int \<times> kstate" where
  "call_handler handler s =
     (let (ret, w') = handler (arglist (regs s)) (w s)
      in (ret, s\<lparr>w := w', klog := klog s @ [EvHandler (primary (w s))]\<rparr>))"

text \<open>
  The label \<^verbatim>\<open>ret_handled\<close>: \<^verbatim>\<open>if (thread) { xnstat_counter_inc(&thread->stat.xsc); ... }\<close>.
  Tracing and \<^verbatim>\<open>printk\<close> change nothing the dispatchers read and are left out.
\<close>

definition ret_handled :: "bool \<Rightarrow> kstate \<Rightarrow> kstate" where
  "ret_handled thread s = (if thread then s\<lparr>w := (w s)\<lparr>xsc := xsc (w s) + 1\<rparr>\<rparr> else s)"

section \<open>Signal and cancellation interposition\<close>

definition prepare_for_signal :: "32 word \<Rightarrow> kstate \<Rightarrow> kstate flow" where
  "prepare_for_signal sysflags s =
     (let (notify, s1) =
        (if kicked (w s) then
           (let (n, s') =
              (if sigpending (w s) then
                 (\<not> debugged (w s),
                  (let e = xn_error_return
                       (if flag_set sysflags xn_exec_norestart then - EINTR else - ERESTARTSYS) s
                   in e\<lparr>w := (w e)\<lparr>brk := False\<rparr>\<rparr>))
               else (False, s))
            in (n, s'\<lparr>w := (w s')\<lparr>kicked := False\<rparr>, klog := klog s' @ [EvClearKicked]\<rparr>))
         else (False, s))
      in case xnthread_test_cancel s1 of
           Inl a \<Rightarrow> Inl a
         | Inr s2 \<Rightarrow> Inr (xnthread_relax notify SIGDEBUG_MIGRATE_SIGNAL s2))"

section \<open>Mode resolution\<close>

text \<open>
  \<^verbatim>\<open>if (sysflags & __xn_exec_conforming)
      sysflags |= (thread ? __xn_exec_histage : __xn_exec_lostage);\<close>
\<close>

definition resolve_conforming :: "bool \<Rightarrow> 32 word \<Rightarrow> 32 word" where
  "resolve_conforming thread sysflags =
     (if flag_set sysflags xn_exec_conforming
      then sysflags OR (if thread then xn_exec_histage else xn_exec_lostage)
      else sysflags)"

section \<open>The dispatcher of the head domain\<close>

text \<open>
  The loop at the label \<^verbatim>\<open>restart\<close> of \<^verbatim>\<open>handle_head_syscall\<close>, up to the label \<^verbatim>\<open>done\<close>.
  It either leaves the dispatcher with \<^verbatim>\<open>KEVENT_PROPAGATE\<close>, or reaches \<^verbatim>\<open>done\<close> with the
  values of \<^verbatim>\<open>ret\<close>, \<^verbatim>\<open>sysflags\<close> and \<^verbatim>\<open>switched\<close>.
\<close>

datatype head_loop = HPropagate kstate | HDone int "32 word" bool kstate

function head_restart ::
  "config \<Rightarrow> ipipe_domain \<Rightarrow> cobalt_syshand \<Rightarrow> 32 word \<Rightarrow> bool \<Rightarrow> kstate \<Rightarrow> head_loop"
where
  "head_restart cfg ipd handler sysflags switched s =
     (case (if flag_set sysflags xn_exec_lostage then
              (if ipd = xnsched_realtime_domain
               then Some (True, xnthread_relax True SIGDEBUG_MIGRATE_SYSCALL s)
               else None)
            else if flag_set sysflags (xn_exec_histage OR xn_exec_current)
                    \<and> ipd \<noteq> xnsched_realtime_domain then None
            else Some (switched, s)) of
        None \<Rightarrow> HPropagate s
      | Some (switched1, s1) \<Rightarrow>
          (let reth = call_handler handler s1
           in if fst reth = - ENOSYS \<and> flag_set sysflags xn_exec_adaptive then
                (if switched1 then
                   (let hard = xnthread_harden cfg (snd reth)
                    in if fst hard \<noteq> 0 then HDone (fst hard) sysflags False (snd hard)
                       else head_restart cfg ipd handler (adaptive_flip sysflags) False
                              (snd hard))
                 else head_restart cfg ipd handler (adaptive_flip sysflags) switched1
                        (snd reth))
              else HDone (fst reth) sysflags switched1 (snd reth)))"
  by pat_completeness auto

text \<open>
  The restart is taken only with \<^verbatim>\<open>__xn_exec_adaptive\<close> set, and the exclusive-or clears
  that bit: the measure is the bit.
\<close>

termination head_restart
proof -
  have clears: "\<not> flag_set (adaptive_flip f) xn_exec_adaptive"
    if "flag_set f xn_exec_adaptive" for f
    using that and_exp_eq_0_iff_not_bit [of "f XOR 67" 6] and_exp_eq_0_iff_not_bit [of f 6]
    by (simp add: flag_set_def adaptive_flip_def xn_exec_adaptive_def xn_exec_lostage_def
        xn_exec_histage_def bit_simps)
  show ?thesis
    by (relation "measure (\<lambda>(cfg, ipd, handler, sysflags, switched, s).
          if flag_set sysflags xn_exec_adaptive then 1 else 0)")
       (auto simp: clears)
qed

text \<open>
  From the label \<^verbatim>\<open>done\<close> to the end of \<^verbatim>\<open>handle_head_syscall\<close>; \<open>thread\<close> is the pointer the
  dispatcher fetched on entry.
\<close>

definition head_done ::
  "config \<Rightarrow> bool \<Rightarrow> 32 word \<Rightarrow> bool \<Rightarrow> int \<Rightarrow> kstate \<Rightarrow> (kevent \<times> kstate) flow"
where
  "head_done cfg thread sysflags switched ret s0 =
     (let s = xn_status_return ret s0
      in case (if primary (w s) then
                 (if sigpending (w s) \<or> kicked (w s) then
                    (case prepare_for_signal sysflags s of
                       Inl a \<Rightarrow> Inl a
                     | Inr s' \<Rightarrow> Inr (True, switched, s'))
                  else if weak (w s) \<and> res_count (w s) = 0 then
                    (if switched then Inr (False, False, s)
                     else Inr (False, switched, xnthread_relax False SIGDEBUG_NONE s))
                  else Inr (False, switched, s))
               else Inr (False, switched, s)) of
           Inl a \<Rightarrow> Inl a
         | Inr (sigs, switched', s1) \<Rightarrow>
             (let s2 = (if \<not> sigs \<and> flag_set sysflags xn_exec_switchback \<and> switched'
                        then snd (xnthread_harden cfg s1) else s1)
              in Inr (KEVENT_STOP, ret_handled thread s2)))"

text \<open>
  \<^verbatim>\<open>process = cobalt_current_process();
  if (process == NULL) { process = cobalt_search_process(current->mm);
                         cobalt_set_process(process); }\<close>
\<close>

definition lookup_process :: "kstate \<Rightarrow> kstate" where
  "lookup_process s =
     (if cur_process (w s) then s else s\<lparr>w := (w s)\<lparr>cur_process := mm_process (w s)\<rparr>\<rparr>)"

text \<open>The condition of the permission gate, as the source writes it.\<close>

definition gate_denied :: "config \<Rightarrow> bool \<Rightarrow> bool \<Rightarrow> 32 word \<Rightarrow> bool \<Rightarrow> int \<Rightarrow> bool" where
  "gate_denied cfg process thread sysflags cap nr \<longleftrightarrow>
     (\<not> process \<and> nr \<noteq> sc_cobalt_bind cfg)
     \<or> (\<not> thread \<and> flag_set sysflags xn_exec_shadow)
     \<or> (\<not> cap \<and> nr \<noteq> sc_cobalt_bind cfg)"

definition handle_head_syscall :: "config \<Rightarrow> ipipe_domain \<Rightarrow> kstate \<Rightarrow> (kevent \<times> kstate) flow"
where
  "handle_head_syscall cfg ipd s =
     (if \<not> syscall_p (regs s) then
        (if \<not> primary (w s) then Inr (KEVENT_PROPAGATE, s)
         else Inr (KEVENT_PROPAGATE, xnthread_relax True SIGDEBUG_MIGRATE_SYSCALL s))
      else
        (let thread = cur_thread (w s);
             nr = sysnr (regs s)
         in if nr < 0 \<or> nr \<ge> nr_cobalt_syscalls cfg
            then Inr (KEVENT_STOP, xn_error_return (- ENOSYS) s)
            else
              (let s1 = lookup_process s;
                   handler = cobalt_syscalls cfg nr;
                   sysflags = cobalt_sysmodes cfg nr
               in if gate_denied cfg (cur_process (w s1)) thread sysflags
                       (cap_sys_nice (w s1)) nr
                  then Inr (KEVENT_STOP, ret_handled thread (xn_error_return (- EPERM) s1))
                  else
                    (case head_restart cfg ipd handler
                            (resolve_conforming thread sysflags) False s1 of
                       HPropagate s2 \<Rightarrow> Inr (KEVENT_PROPAGATE, s2)
                     | HDone ret sysflags' switched s2 \<Rightarrow>
                         head_done cfg thread sysflags' switched ret s2))))"

section \<open>The dispatcher of the root domain\<close>

text \<open>
  The loop at the label \<^verbatim>\<open>restart\<close> of \<^verbatim>\<open>handle_root_syscall\<close>. It either fails to harden
  the caller (the error is written to the frame and the dispatcher jumps to
  \<^verbatim>\<open>ret_handled\<close>), or falls out of the loop with \<^verbatim>\<open>ret\<close>, \<^verbatim>\<open>sysflags\<close> and \<^verbatim>\<open>switched\<close>.
\<close>

datatype root_loop = RFailed int kstate | RDone int "32 word" bool kstate

function root_restart :: "config \<Rightarrow> cobalt_syshand \<Rightarrow> 32 word \<Rightarrow> kstate \<Rightarrow> root_loop" where
  "root_restart cfg handler sysflags s =
     (case (if flag_set sysflags xn_exec_histage then
              (let hard = xnthread_harden cfg s
               in if fst hard \<noteq> 0 then Inl hard else Inr (True, snd hard))
            else Inr (False, s)) of
        Inl hard \<Rightarrow> RFailed (fst hard) (xn_error_return (fst hard) (snd hard))
      | Inr (switched, s1) \<Rightarrow>
          (let reth = call_handler handler s1
           in if fst reth = - ENOSYS \<and> flag_set sysflags xn_exec_adaptive then
                root_restart cfg handler (adaptive_flip sysflags)
                  (if switched then xnthread_relax True SIGDEBUG_MIGRATE_SYSCALL (snd reth)
                   else snd reth)
              else RDone (fst reth) sysflags switched (snd reth)))"
  by pat_completeness auto

termination root_restart
proof -
  have clears: "\<not> flag_set (adaptive_flip f) xn_exec_adaptive"
    if "flag_set f xn_exec_adaptive" for f
    using that and_exp_eq_0_iff_not_bit [of "f XOR 67" 6] and_exp_eq_0_iff_not_bit [of f 6]
    by (simp add: flag_set_def adaptive_flip_def xn_exec_adaptive_def xn_exec_lostage_def
        xn_exec_histage_def bit_simps)
  show ?thesis
    by (relation "measure (\<lambda>(cfg, handler, sysflags, s).
          if flag_set sysflags xn_exec_adaptive then 1 else 0)")
       (auto simp: clears)
qed

text \<open>
  From \<^verbatim>\<open>__xn_status_return(regs, ret)\<close> to the end of \<^verbatim>\<open>handle_root_syscall\<close>; \<open>thread0\<close>
  is the pointer fetched on entry, fetched again when the caller is not in the root domain
  after the handler.
\<close>

definition root_done ::
  "bool \<Rightarrow> 32 word \<Rightarrow> bool \<Rightarrow> int \<Rightarrow> kstate \<Rightarrow> (kevent \<times> kstate) flow"
where
  "root_done thread0 sysflags switched ret s0 =
     (let s = xn_status_return ret s0;
          thread = (if primary (w s) then cur_thread (w s) else thread0)
      in case (if primary (w s) then
                 (if sigpending (w s) then
                    (case prepare_for_signal sysflags s of
                       Inl a \<Rightarrow> Inl a
                     | Inr s' \<Rightarrow> Inr (True, sysflags, s'))
                  else if weak (w s) \<and> res_count (w s) = 0 then
                    Inr (False, sysflags OR xn_exec_switchback, s)
                  else Inr (False, sysflags, s))
               else Inr (False, sysflags, s)) of
           Inl a \<Rightarrow> Inl a
         | Inr (sigs, sysflags', s1) \<Rightarrow>
             (let s2 = (if \<not> sigs \<and> flag_set sysflags' xn_exec_switchback
                           \<and> (switched \<or> primary (w s1))
                        then xnthread_relax False SIGDEBUG_NONE s1 else s1)
              in Inr (KEVENT_STOP, ret_handled thread s2)))"

text \<open>
  \<^verbatim>\<open>handle_root_syscall\<close> reads \<^verbatim>\<open>cobalt_syscalls[nr]\<close> and \<^verbatim>\<open>cobalt_sysmodes[nr]\<close> without
  a check of \<^verbatim>\<open>nr\<close> ("nr has already been checked in the head domain handler"); a read
  outside the tables is the abort \<open>OutOfBounds\<close>.
\<close>

definition handle_root_syscall :: "config \<Rightarrow> ipipe_domain \<Rightarrow> kstate \<Rightarrow> (kevent \<times> kstate) flow"
where
  "handle_root_syscall cfg ipd s0 =
     (case xnthread_test_cancel s0 of
        Inl a \<Rightarrow> Inl a
      | Inr s \<Rightarrow>
          (if \<not> syscall_p (regs s) then Inr (KEVENT_PROPAGATE, s)
           else
             (let thread = cur_thread (w s);
                  nr = sysnr (regs s)
              in if nr < 0 \<or> nr \<ge> nr_cobalt_syscalls cfg then Inl (OutOfBounds, s)
                 else
                   (let handler = cobalt_syscalls cfg nr;
                        sysflags = resolve_conforming thread (cobalt_sysmodes cfg nr)
                    in case root_restart cfg handler sysflags s of
                         RFailed r s1 \<Rightarrow> Inr (KEVENT_STOP, ret_handled thread s1)
                       | RDone ret sysflags' switched s1 \<Rightarrow>
                           root_done thread sysflags' switched ret s1))))"

section \<open>The table of modes\<close>



section \<open>Observing a run\<close>

text \<open>The state in which a dispatcher, or the interposition, leaves the machine.\<close>

definition final_state :: "(kevent \<times> kstate) flow \<Rightarrow> kstate" where
  "final_state r = (case r of Inl a \<Rightarrow> snd a | Inr k \<Rightarrow> snd k)"

definition interposed_state :: "kstate flow \<Rightarrow> kstate" where
  "interposed_state r = (case r of Inl a \<Rightarrow> snd a | Inr s \<Rightarrow> s)"

fun head_loop_state :: "head_loop \<Rightarrow> kstate" where
  "head_loop_state (HPropagate s) = s"
| "head_loop_state (HDone ret sysflags switched s) = s"

fun root_loop_state :: "root_loop \<Rightarrow> kstate" where
  "root_loop_state (RFailed r s) = s"
| "root_loop_state (RDone ret sysflags switched s) = s"

text \<open>The domains in which the handler was entered, in the order of the invocations.\<close>

fun handler_domains :: "event list \<Rightarrow> bool list" where
  "handler_domains [] = []"
| "handler_domains (EvHandler d # es) = d # handler_domains es"
| "handler_domains (e # es) = handler_domains es"

text \<open>
  The events a dispatch loop can add to the log: a relax for a call that must run in the
  Linux domain, an attempt to harden, an invocation of the handler.
\<close>

definition loop_event :: "event \<Rightarrow> bool" where
  "loop_event e \<longleftrightarrow>
     (case e of EvRelax n c \<Rightarrow> n \<and> c = SIGDEBUG_MIGRATE_SYSCALL
              | EvHarden r \<Rightarrow> True | EvHandler d \<Rightarrow> True | _ \<Rightarrow> False)"

section \<open>A small instance\<close>

text \<open>
  \<^verbatim>\<open>cobalt_ni\<close> is the placeholder of the unused table entries. The other handlers, and a
  table of five calls with modes of the source's table, are the concrete inputs on which
  the theorems below are instantiated: call 0 is \<^verbatim>\<open>primary\<close>, call 1 is \<^verbatim>\<open>probing\<close> with a
  handler that declines in primary mode, call 2 is \<^verbatim>\<open>probing\<close> with a handler that
  declines in the root domain, call 3 is the bind call (\<^verbatim>\<open>lostage\<close>), call 4 is \<^verbatim>\<open>init\<close>
  with a handler that leaves its caller with a thread control block and in primary mode.
  Hardening fails with \<^verbatim>\<open>-EPERM\<close> for a caller without a thread control block and with
  \<^verbatim>\<open>-ERESTARTSYS\<close> when a signal is pending.
\<close>

definition cobalt_ni :: cobalt_syshand where
  "cobalt_ni args x = (- ENOSYS, x)"

definition demo_ok :: cobalt_syshand where
  "demo_ok args x = (0, x)"

definition demo_probe :: cobalt_syshand where
  "demo_probe args x = (if primary x then - ENOSYS else 7, x)"

definition demo_rt_only :: cobalt_syshand where
  "demo_rt_only args x = (if primary x then 7 else - ENOSYS, x)"

definition demo_create :: cobalt_syshand where
  "demo_create args x = (0, x\<lparr>primary := True, cur_thread := True\<rparr>)"

definition demo_config :: config where
  "demo_config =
     \<lparr>nr_cobalt_syscalls = 5, sc_cobalt_bind = 3,
      cobalt_syscalls = (\<lambda>nr. if nr = 1 then demo_probe
                               else if nr = 2 then demo_rt_only
                               else if nr = 4 then demo_create else demo_ok),
      cobalt_sysmodes = (\<lambda>nr. if nr = 0 then xn_exec_primary
                               else if nr = 1 then xn_exec_probing
                               else if nr = 2 then xn_exec_probing
                               else if nr = 3 then xn_exec_lostage else xn_exec_init),
      harden_rc = (\<lambda>x. if \<not> cur_thread x then - EPERM
                         else if sigpending x then - ERESTARTSYS else 0)\<rparr>"

definition demo_world :: world where
  "demo_world =
     \<lparr>primary = True, cur_thread = True, kicked = False, brk = False, canceld = False,
      debugged = False, weak = False, res_count = 0, sigpending = False,
      cur_process = True, mm_process = True, cap_sys_nice = True, xsc = 0\<rparr>"

definition demo_regs :: pt_regs where
  "demo_regs = \<lparr>syscall_p = True, sysnr = 0, arglist = [0, 0, 0, 0, 0], rval = 0\<rparr>"

definition demo_state :: kstate where
  "demo_state = \<lparr>w = demo_world, regs = demo_regs, klog = []\<rparr>"

text \<open>A caller with no process binding, no thread control block and no privilege.\<close>

definition bind_state :: kstate where
  "bind_state =
     demo_state\<lparr>w := demo_world\<lparr>primary := False, cur_thread := False, cur_process := False,
                                 mm_process := False, cap_sys_nice := False\<rparr>,
                regs := demo_regs\<lparr>sysnr := 3\<rparr>\<rparr>"

text \<open>
  A relaxed thread with a signal pending; a relaxed caller of call 2 that has no thread
  control block.
\<close>

definition pending_state :: kstate where
  "pending_state = demo_state\<lparr>w := demo_world\<lparr>primary := False, sigpending := True\<rparr>\<rparr>"

definition plain_probe_state :: kstate where
  "plain_probe_state =
     demo_state\<lparr>w := demo_world\<lparr>primary := False, cur_thread := False\<rparr>,
                regs := demo_regs\<lparr>sysnr := 2\<rparr>\<rparr>"

text \<open>A caller that was kicked and has a signal pending; one with a signal only; one that
  is also cancelled.\<close>

definition kicked_state :: kstate where
  "kicked_state = demo_state\<lparr>w := demo_world\<lparr>kicked := True, sigpending := True\<rparr>\<rparr>"

definition signalled_state :: kstate where
  "signalled_state = demo_state\<lparr>w := demo_world\<lparr>sigpending := True\<rparr>\<rparr>"

definition cancelled_state :: kstate where
  "cancelled_state =
     demo_state\<lparr>w := demo_world\<lparr>kicked := True, sigpending := True, canceld := True\<rparr>\<rparr>"

text \<open>Callers of the probing call 1, in primary mode and relaxed.\<close>

definition probe_state :: kstate where
  "probe_state = demo_state\<lparr>regs := demo_regs\<lparr>sysnr := 1\<rparr>\<rparr>"

definition relaxed_probe_state :: kstate where
  "relaxed_probe_state =
     demo_state\<lparr>w := demo_world\<lparr>primary := False\<rparr>, regs := demo_regs\<lparr>sysnr := 1\<rparr>\<rparr>"

text \<open>A weak caller of call 4.\<close>

definition weak_state :: kstate where
  "weak_state = demo_state\<lparr>w := demo_world\<lparr>weak := True\<rparr>, regs := demo_regs\<lparr>sysnr := 4\<rparr>\<rparr>"

section \<open>Facts about the mode bits and the loops\<close>

lemmas demo_defs = demo_config_def demo_world_def demo_regs_def demo_state_def demo_ok_def
  demo_probe_def demo_rt_only_def demo_create_def

declare head_restart.simps [simp del] root_restart.simps [simp del]

lemma flag_set_or: "flag_set f (a OR b) \<longleftrightarrow> flag_set f a \<or> flag_set f b"
  by (simp add: flag_set_def bit.conj_disj_distrib or_eq_0_iff)

lemma flag_set_bit:
  "flag_set f xn_exec_lostage \<longleftrightarrow> bit f 0"
  "flag_set f xn_exec_histage \<longleftrightarrow> bit f 1"
  "flag_set f xn_exec_shadow \<longleftrightarrow> bit f 2"
  "flag_set f xn_exec_switchback \<longleftrightarrow> bit f 3"
  "flag_set f xn_exec_current \<longleftrightarrow> bit f 4"
  "flag_set f xn_exec_conforming \<longleftrightarrow> bit f 5"
  "flag_set f xn_exec_adaptive \<longleftrightarrow> bit f 6"
  "flag_set f xn_exec_norestart \<longleftrightarrow> bit f 7"
  using and_exp_eq_0_iff_not_bit [of f 0] and_exp_eq_0_iff_not_bit [of f 1]
    and_exp_eq_0_iff_not_bit [of f 2] and_exp_eq_0_iff_not_bit [of f 3]
    and_exp_eq_0_iff_not_bit [of f 4] and_exp_eq_0_iff_not_bit [of f 5]
    and_exp_eq_0_iff_not_bit [of f 6] and_exp_eq_0_iff_not_bit [of f 7]
  by (simp_all add: flag_set_def xn_exec_lostage_def xn_exec_histage_def xn_exec_shadow_def
      xn_exec_switchback_def xn_exec_current_def xn_exec_conforming_def xn_exec_adaptive_def
      xn_exec_norestart_def)

lemma adaptive_flip_bit:
  "bit (adaptive_flip f) 0 \<longleftrightarrow> \<not> bit f 0"
  "bit (adaptive_flip f) 1 \<longleftrightarrow> \<not> bit f 1"
  "bit (adaptive_flip f) 2 \<longleftrightarrow> bit f 2"
  "bit (adaptive_flip f) 3 \<longleftrightarrow> bit f 3"
  "bit (adaptive_flip f) 4 \<longleftrightarrow> bit f 4"
  "bit (adaptive_flip f) 5 \<longleftrightarrow> bit f 5"
  "bit (adaptive_flip f) 6 \<longleftrightarrow> \<not> bit f 6"
  "bit (adaptive_flip f) 7 \<longleftrightarrow> bit f 7"
  by (simp_all add: adaptive_flip_def xn_exec_lostage_def xn_exec_histage_def
      xn_exec_adaptive_def bit_simps)

lemma or_bit:
  "bit (f OR xn_exec_lostage) 0"
  "bit (f OR xn_exec_histage) 1"
  "bit (f OR xn_exec_lostage) 1 \<longleftrightarrow> bit f 1"
  "bit (f OR xn_exec_histage) 0 \<longleftrightarrow> bit f 0"
  "bit (f OR xn_exec_switchback) 3"
  by (simp_all add: xn_exec_lostage_def xn_exec_histage_def xn_exec_switchback_def bit_simps)

lemma adaptive_flip_clears:
  "flag_set f xn_exec_adaptive \<Longrightarrow> \<not> flag_set (adaptive_flip f) xn_exec_adaptive"
  by (simp add: flag_set_bit adaptive_flip_bit)

lemma handler_domains_append [simp]:
  "handler_domains (xs @ ys) = handler_domains xs @ handler_domains ys"
  by (induction xs rule: handler_domains.induct) auto

text \<open>Without the adaptive bit a loop is a single attempt.\<close>

lemma head_restart_last:
  "\<not> flag_set f xn_exec_adaptive \<Longrightarrow>
   head_restart cfg ipd h f sw s =
     (case (if flag_set f xn_exec_lostage then
              (if ipd = xnsched_realtime_domain
               then Some (True, xnthread_relax True SIGDEBUG_MIGRATE_SYSCALL s)
               else None)
            else if flag_set f (xn_exec_histage OR xn_exec_current)
                    \<and> ipd \<noteq> xnsched_realtime_domain then None
            else Some (sw, s)) of
        None \<Rightarrow> HPropagate s
      | Some (sw1, s1) \<Rightarrow> HDone (fst (call_handler h s1)) f sw1 (snd (call_handler h s1)))"
  by (subst head_restart.simps) (simp add: Let_def)

lemma root_restart_last:
  "\<not> flag_set f xn_exec_adaptive \<Longrightarrow>
   root_restart cfg h f s =
     (case (if flag_set f xn_exec_histage then
              (let hard = xnthread_harden cfg s
               in if fst hard \<noteq> 0 then Inl hard else Inr (True, snd hard))
            else Inr (False, s)) of
        Inl hard \<Rightarrow> RFailed (fst hard) (xn_error_return (fst hard) (snd hard))
      | Inr (sw1, s1) \<Rightarrow> RDone (fst (call_handler h s1)) f sw1 (snd (call_handler h s1)))"
  by (subst root_restart.simps) (simp add: Let_def)

lemmas loop_defs = Let_def call_handler_def xnthread_harden_def xnthread_relax_def
  xn_error_return_def flag_set_or flag_set_bit adaptive_flip_bit

text \<open>What the loops and the post-call parts add to the log.\<close>

lemma loop_event_no_clear: "list_all loop_event evs \<Longrightarrow> count_list evs EvClearKicked = 0"
  by (induction evs) (auto simp: loop_event_def)

lemma head_restart_log:
  "\<exists>evs. klog (head_loop_state (head_restart cfg ipd h f sw s)) = klog s @ evs
         \<and> list_all loop_event evs \<and> length (handler_domains evs) \<le> 2"
proof (cases "flag_set f xn_exec_adaptive")
  case True
  then have "\<not> flag_set (adaptive_flip f) xn_exec_adaptive"
    by (rule adaptive_flip_clears)
  then show ?thesis
    by (subst head_restart.simps)
       (auto simp: head_restart_last loop_defs loop_event_def split: prod.splits)
next
  case False
  then show ?thesis
    by (auto simp: head_restart_last loop_defs loop_event_def split: prod.splits)
qed

lemma root_restart_log:
  "\<exists>evs. klog (root_loop_state (root_restart cfg h f s)) = klog s @ evs
         \<and> list_all loop_event evs \<and> length (handler_domains evs) \<le> 2"
proof (cases "flag_set f xn_exec_adaptive")
  case True
  then have "\<not> flag_set (adaptive_flip f) xn_exec_adaptive"
    by (rule adaptive_flip_clears)
  then show ?thesis
    by (subst root_restart.simps)
       (auto simp: root_restart_last loop_defs loop_event_def split: prod.splits)
next
  case False
  then show ?thesis
    by (auto simp: root_restart_last loop_defs loop_event_def split: prod.splits)
qed

lemma head_restart_clears:
  "count_list (klog (head_loop_state (head_restart cfg ipd h f sw s))) EvClearKicked
     = count_list (klog s) EvClearKicked"
  using head_restart_log [of cfg ipd h f sw s] by (auto simp: loop_event_no_clear)

lemma root_restart_clears:
  "count_list (klog (root_loop_state (root_restart cfg h f s))) EvClearKicked
     = count_list (klog s) EvClearKicked"
  using root_restart_log [of cfg h f s] by (auto simp: loop_event_no_clear)

lemma prepare_for_signal_clears:
  "count_list (klog (interposed_state (prepare_for_signal f s))) EvClearKicked
     = count_list (klog s) EvClearKicked + (if kicked (w s) then 1 else 0)"
  by (simp add: prepare_for_signal_def interposed_state_def xnthread_test_cancel_def
      xnthread_relax_def xn_error_return_def Let_def)

lemma head_done_clears:
  "count_list (klog (final_state (head_done cfg thread f sw ret s))) EvClearKicked
     = count_list (klog s) EvClearKicked + (if primary (w s) \<and> kicked (w s) then 1 else 0)"
  by (simp add: head_done_def prepare_for_signal_def final_state_def xnthread_test_cancel_def
      xnthread_relax_def xnthread_harden_def xn_error_return_def xn_status_return_def
      ret_handled_def Let_def)

lemma root_done_clears:
  "count_list (klog (final_state (root_done thread f sw ret s))) EvClearKicked
     = count_list (klog s) EvClearKicked
       + (if primary (w s) \<and> sigpending (w s) \<and> kicked (w s) then 1 else 0)"
  by (simp add: root_done_def prepare_for_signal_def final_state_def xnthread_test_cancel_def
      xnthread_relax_def xn_error_return_def xn_status_return_def
      ret_handled_def Let_def)

lemma handle_head_syscall_clears:
  "count_list (klog (final_state (handle_head_syscall cfg ipd s))) EvClearKicked
     \<le> count_list (klog s) EvClearKicked + 1"
proof -
  let ?r = "head_restart cfg ipd (cobalt_syscalls cfg (sysnr (regs s)))
              (resolve_conforming (cur_thread (w s)) (cobalt_sysmodes cfg (sysnr (regs s))))
              False (lookup_process s)"
  have l: "count_list (klog (head_loop_state ?r)) EvClearKicked = count_list (klog s) EvClearKicked"
    by (simp add: head_restart_clears lookup_process_def)
  show ?thesis
  proof (cases ?r)
    case (HPropagate s2)
    with l show ?thesis
      by (auto simp: handle_head_syscall_def Let_def final_state_def xnthread_relax_def
          xn_error_return_def ret_handled_def lookup_process_def)
  next
    case (HDone ret fl sw s2)
    with l head_done_clears [of cfg "cur_thread (w s)" fl sw ret s2] show ?thesis
      by (auto simp: handle_head_syscall_def Let_def final_state_def xnthread_relax_def
          xn_error_return_def ret_handled_def lookup_process_def split: if_splits)
  qed
qed

lemma handle_root_syscall_clears:
  "count_list (klog (final_state (handle_root_syscall cfg ipd s))) EvClearKicked
     \<le> count_list (klog s) EvClearKicked + 1"
proof -
  let ?r = "root_restart cfg (cobalt_syscalls cfg (sysnr (regs s)))
              (resolve_conforming (cur_thread (w s)) (cobalt_sysmodes cfg (sysnr (regs s)))) s"
  have l: "count_list (klog (root_loop_state ?r)) EvClearKicked = count_list (klog s) EvClearKicked"
    by (simp add: root_restart_clears)
  show ?thesis
  proof (cases ?r)
    case (RFailed r s2)
    with l show ?thesis
      by (auto simp: handle_root_syscall_def Let_def final_state_def xnthread_test_cancel_def
          ret_handled_def)
  next
    case (RDone ret fl sw s2)
    with l root_done_clears [of "cur_thread (w s)" fl sw ret s2] show ?thesis
      by (auto simp: handle_root_syscall_def Let_def final_state_def xnthread_test_cancel_def
          ret_handled_def split: if_splits)
  qed
qed

lemmas post_defs = head_done_def root_done_def prepare_for_signal_def final_state_def
  interposed_state_def xnthread_test_cancel_def xnthread_relax_def xnthread_harden_def
  xn_error_return_def xn_status_return_def ret_handled_def Let_def

text \<open>The loops never test the conforming bit: toggling it changes nothing but the
  mode they hand on.\<close>

lemma conforming_toggle_bit:
  "bit (f XOR xn_exec_conforming) 0 \<longleftrightarrow> bit f 0"
  "bit (f XOR xn_exec_conforming) 1 \<longleftrightarrow> bit f 1"
  "bit (f XOR xn_exec_conforming) 4 \<longleftrightarrow> bit f 4"
  "bit (f XOR xn_exec_conforming) 6 \<longleftrightarrow> bit f 6"
  by (simp_all add: xn_exec_conforming_def bit_simps)

lemma adaptive_flip_toggle:
  "adaptive_flip (f XOR xn_exec_conforming) = adaptive_flip f XOR xn_exec_conforming"
  by (simp add: adaptive_flip_def ac_simps)

lemma head_restart_ignores_conforming:
  "head_restart cfg ipd h (f XOR xn_exec_conforming) sw s =
     (case head_restart cfg ipd h f sw s of
        HPropagate s' \<Rightarrow> HPropagate s'
      | HDone ret fl sw' s' \<Rightarrow> HDone ret (fl XOR xn_exec_conforming) sw' s')"
proof (cases "flag_set f xn_exec_adaptive")
  case True
  then have a: "\<not> flag_set (adaptive_flip f) xn_exec_adaptive"
    "\<not> flag_set (adaptive_flip f XOR xn_exec_conforming) xn_exec_adaptive"
    by (simp_all add: flag_set_bit adaptive_flip_bit conforming_toggle_bit)
  show ?thesis
    unfolding head_restart.simps [of cfg ipd h "f XOR xn_exec_conforming" sw s]
      head_restart.simps [of cfg ipd h f sw s]
    using True a
    by (simp add: adaptive_flip_toggle head_restart_last Let_def flag_set_or flag_set_bit
        conforming_toggle_bit adaptive_flip_bit del: One_nat_def)
next
  case False
  then have "\<not> flag_set (f XOR xn_exec_conforming) xn_exec_adaptive"
    by (simp add: flag_set_bit conforming_toggle_bit)
  with False show ?thesis
    by (simp add: head_restart_last flag_set_or flag_set_bit conforming_toggle_bit
        del: One_nat_def)
qed

lemma root_restart_ignores_conforming:
  "root_restart cfg h (f XOR xn_exec_conforming) s =
     (case root_restart cfg h f s of
        RFailed r s' \<Rightarrow> RFailed r s'
      | RDone ret fl sw' s' \<Rightarrow> RDone ret (fl XOR xn_exec_conforming) sw' s')"
proof (cases "flag_set f xn_exec_adaptive")
  case True
  then have a: "\<not> flag_set (adaptive_flip f) xn_exec_adaptive"
    "\<not> flag_set (adaptive_flip f XOR xn_exec_conforming) xn_exec_adaptive"
    by (simp_all add: flag_set_bit adaptive_flip_bit conforming_toggle_bit)
  show ?thesis
    unfolding root_restart.simps [of cfg h "f XOR xn_exec_conforming" s]
      root_restart.simps [of cfg h f s]
    using True a
    by (simp add: adaptive_flip_toggle root_restart_last Let_def flag_set_or flag_set_bit
        conforming_toggle_bit adaptive_flip_bit del: One_nat_def)
next
  case False
  then have "\<not> flag_set (f XOR xn_exec_conforming) xn_exec_adaptive"
    by (simp add: flag_set_bit conforming_toggle_bit)
  with False show ?thesis
    by (simp add: root_restart_last flag_set_or flag_set_bit conforming_toggle_bit Let_def
        del: One_nat_def)
qed

text \<open>The domains in which a loop enters the handler.\<close>

lemma head_restart_domains:
  "\<exists>evs. klog (head_loop_state (head_restart cfg ipd h f sw s)) = klog s @ evs
         \<and> length (handler_domains evs) \<le> 2
         \<and> ((ipd = xnsched_realtime_domain \<longrightarrow> primary (w s)) \<longrightarrow>
              (\<forall>d1 d2. handler_domains evs = [d1, d2] \<longrightarrow> d2 = (\<not> d1)))"
proof (cases "flag_set f xn_exec_adaptive")
  case True
  then have "\<not> flag_set (adaptive_flip f) xn_exec_adaptive"
    by (rule adaptive_flip_clears)
  then show ?thesis
    by (subst head_restart.simps)
       (auto simp: head_restart_last loop_defs split: prod.splits simp del: One_nat_def)
next
  case False
  then show ?thesis
    by (auto simp: head_restart_last loop_defs split: prod.splits simp del: One_nat_def)
qed

lemma root_restart_domains:
  "\<exists>evs. klog (root_loop_state (root_restart cfg h f s)) = klog s @ evs
         \<and> length (handler_domains evs) \<le> 2
         \<and> (\<not> primary (w s) \<longrightarrow>
              (\<forall>d1 d2. handler_domains evs = [d1, d2] \<longrightarrow> d2 = (\<not> d1)))"
proof (cases "flag_set f xn_exec_adaptive")
  case True
  then have "\<not> flag_set (adaptive_flip f) xn_exec_adaptive"
    by (rule adaptive_flip_clears)
  then show ?thesis
    by (subst root_restart.simps)
       (auto simp: root_restart_last loop_defs split: prod.splits simp del: One_nat_def)
next
  case False
  then show ?thesis
    by (auto simp: root_restart_last loop_defs split: prod.splits simp del: One_nat_def)
qed

lemmas mode_defs = flag_set_def adaptive_flip_def resolve_conforming_def
  xn_exec_lostage_def xn_exec_histage_def xn_exec_shadow_def xn_exec_switchback_def
  xn_exec_current_def xn_exec_conforming_def xn_exec_adaptive_def xn_exec_norestart_def
  xn_exec_init_def xn_exec_primary_def xn_exec_downup_def xn_exec_probing_def
  xn_exec_nonrestartable_def xn_exec_oneway_def

lemmas run_defs = handle_head_syscall_def handle_root_syscall_def head_restart.simps
  root_restart.simps gate_denied_def lookup_process_def call_handler_def
  EPERM_def EINTR_def ENOSYS_def ERESTARTSYS_def





section \<open>The claims\<close>



text \<open>
  C2. The restart of an adaptive call clears \<^verbatim>\<open>__xn_exec_adaptive\<close> and complements
  \<^verbatim>\<open>__xn_exec_lostage\<close> and \<^verbatim>\<open>__xn_exec_histage\<close>. Whatever the mode and the handler, a
  dispatch loop enters the handler at most twice; and when it enters it twice (the first
  attempt returned \<^verbatim>\<open>-ENOSYS\<close> under the adaptive bit) the second attempt runs in the
  domain opposite to the first. For the head loop this is for a caller of the head domain
  that is in primary mode on entry, for the root loop for a caller that is relaxed on
  entry.
\<close>

theorem adaptive_retry_bounded:
  "(flag_set f xn_exec_adaptive \<longrightarrow>
      \<not> flag_set (adaptive_flip f) xn_exec_adaptive
      \<and> (flag_set (adaptive_flip f) xn_exec_lostage \<longleftrightarrow> \<not> flag_set f xn_exec_lostage)
      \<and> (flag_set (adaptive_flip f) xn_exec_histage \<longleftrightarrow> \<not> flag_set f xn_exec_histage))
   \<and> (\<exists>evs. klog (head_loop_state (head_restart cfg ipd h f sw s)) = klog s @ evs
         \<and> length (handler_domains evs) \<le> 2
         \<and> ((ipd = xnsched_realtime_domain \<longrightarrow> primary (w s)) \<longrightarrow>
              (\<forall>d1 d2. handler_domains evs = [d1, d2] \<longrightarrow> d2 = (\<not> d1))))
   \<and> (\<exists>evs. klog (root_loop_state (root_restart cfg h f s)) = klog s @ evs
         \<and> length (handler_domains evs) \<le> 2
         \<and> (\<not> primary (w s) \<longrightarrow>
              (\<forall>d1 d2. handler_domains evs = [d1, d2] \<longrightarrow> d2 = (\<not> d1))))"
proof -
  have "flag_set f xn_exec_adaptive \<longrightarrow>
      \<not> flag_set (adaptive_flip f) xn_exec_adaptive
      \<and> (flag_set (adaptive_flip f) xn_exec_lostage \<longleftrightarrow> \<not> flag_set f xn_exec_lostage)
      \<and> (flag_set (adaptive_flip f) xn_exec_histage \<longleftrightarrow> \<not> flag_set f xn_exec_histage)"
    by (simp add: flag_set_bit adaptive_flip_bit del: One_nat_def)
  then show ?thesis
    using head_restart_domains [of cfg ipd h f sw s] root_restart_domains [of cfg h f s]
    by blast
qed


text \<open>
  The probing call of a thread whose handler declines in primary mode: from the head domain
  it runs in primary mode, then relaxed; from the root domain the caller is hardened, the
  handler declines, the caller is relaxed and the handler runs again.
\<close>

theorem adaptive_retry_bounded_witness:
  "flag_set (resolve_conforming True xn_exec_probing) xn_exec_adaptive
   \<and> primary (w probe_state) \<and> \<not> primary (w relaxed_probe_state)
   \<and> head_restart demo_config xnsched_realtime_domain demo_probe
        (resolve_conforming True xn_exec_probing) False probe_state
       = HDone 7 0x21 True
           (probe_state\<lparr>w := demo_world\<lparr>primary := False\<rparr>,
                        klog := [EvHandler True, EvRelax True SIGDEBUG_MIGRATE_SYSCALL,
                                 EvHandler False]\<rparr>)
   \<and> root_restart demo_config demo_probe (resolve_conforming True xn_exec_probing)
        relaxed_probe_state
       = RDone 7 0x21 False
           (relaxed_probe_state\<lparr>klog := [EvHarden 0, EvHandler True,
                                         EvRelax True SIGDEBUG_MIGRATE_SYSCALL,
                                         EvHandler False]\<rparr>)"
  using adaptive_retry_bounded [of "resolve_conforming True xn_exec_probing" demo_config
      xnsched_realtime_domain demo_probe False probe_state]
    adaptive_retry_bounded [of "resolve_conforming True xn_exec_probing" demo_config
      ipipe_root_domain demo_probe False relaxed_probe_state]
  by (simp add: probe_state_def relaxed_probe_state_def demo_defs head_restart.simps
      root_restart.simps resolve_conforming_def flag_set_def adaptive_flip_def
      xn_exec_probing_def xn_exec_conforming_def xn_exec_adaptive_def xn_exec_histage_def
      xn_exec_lostage_def xn_exec_current_def call_handler_def xnthread_relax_def
      xnthread_harden_def ENOSYS_def Let_def)

text \<open>
  C3. For a recognised call in range, the head dispatcher goes on to its dispatch loop
  exactly when a process binding exists (cached, or found for the address space) or the
  call is the bind call, and a thread control block exists whenever the mode has the shadow
  bit, and the caller has \<^verbatim>\<open>CAP_SYS_NICE\<close> or the call is the bind call. Otherwise it
  writes \<^verbatim>\<open>-EPERM\<close>, returns \<^verbatim>\<open>KEVENT_STOP\<close> and invokes no handler (the log is as
  before).
\<close>

theorem permission_gate:
  assumes "syscall_p (regs s)"
    and "0 \<le> sysnr (regs s)" and "sysnr (regs s) < nr_cobalt_syscalls cfg"
  shows
    "if (cur_process (w s) \<or> mm_process (w s) \<or> sysnr (regs s) = sc_cobalt_bind cfg)
        \<and> (flag_set (cobalt_sysmodes cfg (sysnr (regs s))) xn_exec_shadow
             \<longrightarrow> cur_thread (w s))
        \<and> (cap_sys_nice (w s) \<or> sysnr (regs s) = sc_cobalt_bind cfg)
     then handle_head_syscall cfg ipd s =
            (case head_restart cfg ipd (cobalt_syscalls cfg (sysnr (regs s)))
                    (resolve_conforming (cur_thread (w s))
                       (cobalt_sysmodes cfg (sysnr (regs s))))
                    False (lookup_process s) of
               HPropagate s2 \<Rightarrow> Inr (KEVENT_PROPAGATE, s2)
             | HDone ret sysflags switched s2 \<Rightarrow>
                 head_done cfg (cur_thread (w s)) sysflags switched ret s2)
     else handle_head_syscall cfg ipd s =
            Inr (KEVENT_STOP,
                 ret_handled (cur_thread (w s)) (xn_error_return (- EPERM) (lookup_process s)))
          \<and> rval (regs (final_state (handle_head_syscall cfg ipd s))) = - EPERM
          \<and> klog (final_state (handle_head_syscall cfg ipd s)) = klog s"
  using assms
  by (auto simp: handle_head_syscall_def gate_denied_def lookup_process_def ret_handled_def
      xn_error_return_def final_state_def Let_def)

text \<open>
  The bind call of a caller with no process binding and no privilege passes the gate (and
  is propagated to the root dispatcher, its mode being \<^verbatim>\<open>lostage\<close>); another call of the
  same caller is denied.
\<close>

theorem permission_gate_witness:
  "syscall_p (regs bind_state) \<and> sysnr (regs bind_state) = sc_cobalt_bind demo_config
   \<and> \<not> cur_process (w bind_state) \<and> \<not> mm_process (w bind_state)
   \<and> \<not> cap_sys_nice (w bind_state)
   \<and> handle_head_syscall demo_config ipipe_root_domain bind_state
       = Inr (KEVENT_PROPAGATE, bind_state)
   \<and> handle_head_syscall demo_config ipipe_root_domain
        (bind_state\<lparr>regs := demo_regs\<lparr>sysnr := 2\<rparr>\<rparr>)
       = Inr (KEVENT_STOP, bind_state\<lparr>regs := demo_regs\<lparr>sysnr := 2, rval := - 1\<rparr>\<rparr>)"
  using permission_gate [of bind_state demo_config ipipe_root_domain]
    permission_gate [of "bind_state\<lparr>regs := demo_regs\<lparr>sysnr := 2\<rparr>\<rparr>" demo_config
      ipipe_root_domain]
  by (simp add: bind_state_def demo_defs head_restart.simps mode_defs lookup_process_def
      ret_handled_def xn_error_return_def EPERM_def)

text \<open>
  C4, as the code has it. In the root dispatcher, on every attempt of the loop whose mode
  asks for the Xenomai domain, if hardening fails then the error code of the migration is
  written to the frame and the dispatcher returns \<^verbatim>\<open>KEVENT_STOP\<close> without invoking the
  handler on that attempt. When the mode resolved on entry asks for the Xenomai domain the
  handler is never invoked and the caller stays where it was. When only the adaptive
  restart asks for it, the handler has run once before, in the attempt that returned
  \<^verbatim>\<open>-ENOSYS\<close>.
\<close>

theorem harden_failure_not_executed:
  "(flag_set f xn_exec_histage \<and> harden_rc cfg (w s) \<noteq> 0 \<longrightarrow>
      root_restart cfg h f s =
        RFailed (harden_rc cfg (w s))
          (s\<lparr>regs := (regs s)\<lparr>rval := harden_rc cfg (w s)\<rparr>,
             klog := klog s @ [EvHarden (harden_rc cfg (w s))]\<rparr>))
   \<and> (\<not> canceld (w s) \<and> syscall_p (regs s)
        \<and> 0 \<le> sysnr (regs s) \<and> sysnr (regs s) < nr_cobalt_syscalls cfg
        \<and> flag_set (resolve_conforming (cur_thread (w s))
                      (cobalt_sysmodes cfg (sysnr (regs s)))) xn_exec_histage
        \<and> harden_rc cfg (w s) \<noteq> 0 \<longrightarrow>
      handle_root_syscall cfg ipd s =
        Inr (KEVENT_STOP,
             ret_handled (cur_thread (w s))
               (s\<lparr>regs := (regs s)\<lparr>rval := harden_rc cfg (w s)\<rparr>,
                  klog := klog s @ [EvHarden (harden_rc cfg (w s))]\<rparr>))
      \<and> handler_domains (klog (final_state (handle_root_syscall cfg ipd s)))
          = handler_domains (klog s)
      \<and> primary (w (final_state (handle_root_syscall cfg ipd s))) = primary (w s))
   \<and> (\<not> flag_set f xn_exec_histage \<and> flag_set f xn_exec_adaptive
        \<and> fst (h (arglist (regs s)) (w s)) = - ENOSYS
        \<and> harden_rc cfg (snd (h (arglist (regs s)) (w s))) \<noteq> 0 \<longrightarrow>
      root_restart cfg h f s =
        RFailed (harden_rc cfg (snd (h (arglist (regs s)) (w s))))
          (s\<lparr>w := snd (h (arglist (regs s)) (w s)),
             regs := (regs s)\<lparr>rval := harden_rc cfg (snd (h (arglist (regs s)) (w s)))\<rparr>,
             klog := klog s @ [EvHandler (primary (w s)),
                               EvHarden (harden_rc cfg (snd (h (arglist (regs s)) (w s))))]\<rparr>))"
proof -
  have 1: "flag_set f xn_exec_histage \<and> harden_rc cfg (w s) \<noteq> 0 \<longrightarrow>
      root_restart cfg h f s =
        RFailed (harden_rc cfg (w s))
          (s\<lparr>regs := (regs s)\<lparr>rval := harden_rc cfg (w s)\<rparr>,
             klog := klog s @ [EvHarden (harden_rc cfg (w s))]\<rparr>)"
    by (simp add: root_restart.simps xnthread_harden_def xn_error_return_def Let_def)
  have 2: "\<not> canceld (w s) \<and> syscall_p (regs s)
        \<and> 0 \<le> sysnr (regs s) \<and> sysnr (regs s) < nr_cobalt_syscalls cfg
        \<and> flag_set (resolve_conforming (cur_thread (w s))
                      (cobalt_sysmodes cfg (sysnr (regs s)))) xn_exec_histage
        \<and> harden_rc cfg (w s) \<noteq> 0 \<longrightarrow>
      handle_root_syscall cfg ipd s =
        Inr (KEVENT_STOP,
             ret_handled (cur_thread (w s))
               (s\<lparr>regs := (regs s)\<lparr>rval := harden_rc cfg (w s)\<rparr>,
                  klog := klog s @ [EvHarden (harden_rc cfg (w s))]\<rparr>))
      \<and> handler_domains (klog (final_state (handle_root_syscall cfg ipd s)))
          = handler_domains (klog s)
      \<and> primary (w (final_state (handle_root_syscall cfg ipd s))) = primary (w s)"
    by (simp add: handle_root_syscall_def xnthread_test_cancel_def Let_def root_restart.simps
        xnthread_harden_def xn_error_return_def final_state_def ret_handled_def)
  have 3: "\<not> flag_set f xn_exec_histage \<and> flag_set f xn_exec_adaptive
        \<and> fst (h (arglist (regs s)) (w s)) = - ENOSYS
        \<and> harden_rc cfg (snd (h (arglist (regs s)) (w s))) \<noteq> 0 \<longrightarrow>
      root_restart cfg h f s =
        RFailed (harden_rc cfg (snd (h (arglist (regs s)) (w s))))
          (s\<lparr>w := snd (h (arglist (regs s)) (w s)),
             regs := (regs s)\<lparr>rval := harden_rc cfg (snd (h (arglist (regs s)) (w s)))\<rparr>,
             klog := klog s @ [EvHandler (primary (w s)),
                               EvHarden (harden_rc cfg (snd (h (arglist (regs s)) (w s))))]\<rparr>)"
  proof (intro impI, elim conjE)
    assume a: "\<not> flag_set f xn_exec_histage" "flag_set f xn_exec_adaptive"
      "fst (h (arglist (regs s)) (w s)) = - ENOSYS"
      "harden_rc cfg (snd (h (arglist (regs s)) (w s))) \<noteq> 0"
    from a(1,2) have b: "\<not> flag_set (adaptive_flip f) xn_exec_adaptive"
      "flag_set (adaptive_flip f) xn_exec_histage"
      by (simp_all add: flag_set_bit adaptive_flip_bit del: One_nat_def)
    show "root_restart cfg h f s =
        RFailed (harden_rc cfg (snd (h (arglist (regs s)) (w s))))
          (s\<lparr>w := snd (h (arglist (regs s)) (w s)),
             regs := (regs s)\<lparr>rval := harden_rc cfg (snd (h (arglist (regs s)) (w s)))\<rparr>,
             klog := klog s @ [EvHandler (primary (w s)),
                               EvHarden (harden_rc cfg (snd (h (arglist (regs s)) (w s))))]\<rparr>)"
      using a b
      by (subst root_restart.simps)
         (simp add: root_restart_last call_handler_def xnthread_harden_def xn_error_return_def
            Let_def case_prod_beta)
  qed
  from 1 2 3 show ?thesis by (intro conjI)
qed

text \<open>
  A relaxed thread with a signal pending issues the primary call 0: the head dispatcher
  lets it through to the root dispatcher, hardening fails with \<^verbatim>\<open>-ERESTARTSYS\<close> and the
  handler does not run.
\<close>

theorem harden_failure_not_executed_witness:
  "\<not> canceld (w pending_state) \<and> syscall_p (regs pending_state)
   \<and> flag_set (cobalt_sysmodes demo_config (sysnr (regs pending_state))) xn_exec_histage
   \<and> harden_rc demo_config (w pending_state) = - 512
   \<and> handle_head_syscall demo_config ipipe_root_domain pending_state
       = Inr (KEVENT_PROPAGATE, pending_state)
   \<and> handle_root_syscall demo_config ipipe_root_domain pending_state
       = Inr (KEVENT_STOP,
              pending_state\<lparr>w := demo_world\<lparr>primary := False, sigpending := True, xsc := 1\<rparr>,
                            regs := demo_regs\<lparr>rval := - 512\<rparr>, klog := [EvHarden (- 512)]\<rparr>)"
  using harden_failure_not_executed [of xn_exec_primary demo_config pending_state demo_ok
      ipipe_root_domain]
  by (simp add: pending_state_def demo_defs run_defs mode_defs post_defs)

text \<open>
  C4 as stated fails on the adaptive restart: a relaxed caller without a thread control
  block issues the probing call 2. The head dispatcher lets it through; in the root
  dispatcher the mode resolves to the Linux domain, the handler runs and returns
  \<^verbatim>\<open>-ENOSYS\<close>, the restart asks for the Xenomai domain, hardening fails with \<^verbatim>\<open>-EPERM\<close>,
  which becomes the status: the handler has been invoked.
\<close>

theorem harden_failure_counterexample:
  "handle_head_syscall demo_config ipipe_root_domain plain_probe_state
     = Inr (KEVENT_PROPAGATE, plain_probe_state)
   \<and> flag_set (adaptive_flip (resolve_conforming (cur_thread (w plain_probe_state))
                  (cobalt_sysmodes demo_config (sysnr (regs plain_probe_state)))))
        xn_exec_histage
   \<and> handle_root_syscall demo_config ipipe_root_domain plain_probe_state
       = Inr (KEVENT_STOP,
              plain_probe_state\<lparr>regs := demo_regs\<lparr>sysnr := 2, rval := - 1\<rparr>,
                                klog := [EvHandler False, EvHarden (- 1)]\<rparr>)
   \<and> handler_domains (klog (final_state
        (handle_root_syscall demo_config ipipe_root_domain plain_probe_state))) = [False]"
  by (simp add: plain_probe_state_def demo_defs run_defs mode_defs post_defs)

text \<open>
  C5. When \<^verbatim>\<open>prepare_for_signal\<close> runs with \<^verbatim>\<open>XNKICKED\<close> set and a signal pending, the
  status of the frame becomes \<^verbatim>\<open>-EINTR\<close> if the mode has the norestart bit and
  \<^verbatim>\<open>-ERESTARTSYS\<close> otherwise, \<^verbatim>\<open>XNKICKED\<close> is cleared, once; unless cancellation takes the
  thread away, the thread is then relaxed with the cause \<^verbatim>\<open>SIGDEBUG_MIGRATE_SIGNAL\<close>, with a
  notification exactly when \<^verbatim>\<open>XNDEBUG\<close> is not set. Through either dispatcher the status
  written after the handler is overwritten in this way, and a whole call clears
  \<^verbatim>\<open>XNKICKED\<close> at most once.
\<close>

theorem kicked_signal_interposition:
  assumes "kicked (w s)" and "sigpending (w s)"
  shows "rval (regs (interposed_state (prepare_for_signal f s)))
           = (if flag_set f xn_exec_norestart then - EINTR else - ERESTARTSYS)
         \<and> \<not> kicked (w (interposed_state (prepare_for_signal f s)))
         \<and> count_list (klog (interposed_state (prepare_for_signal f s))) EvClearKicked
             = count_list (klog s) EvClearKicked + 1
         \<and> (\<not> canceld (w s) \<longrightarrow>
               prepare_for_signal f s = Inr (interposed_state (prepare_for_signal f s))
               \<and> \<not> primary (w (interposed_state (prepare_for_signal f s)))
               \<and> klog (interposed_state (prepare_for_signal f s))
                   = klog s @ [EvClearKicked,
                               EvRelax (\<not> debugged (w s)) SIGDEBUG_MIGRATE_SIGNAL])
         \<and> (primary (w s) \<longrightarrow>
               rval (regs (final_state (head_done cfg thread f sw ret s)))
                 = (if flag_set f xn_exec_norestart then - EINTR else - ERESTARTSYS)
               \<and> rval (regs (final_state (root_done thread f sw ret s)))
                 = (if flag_set f xn_exec_norestart then - EINTR else - ERESTARTSYS))
         \<and> count_list (klog (final_state (handle_head_syscall cfg ipd s0))) EvClearKicked
             \<le> count_list (klog s0) EvClearKicked + 1
         \<and> count_list (klog (final_state (handle_root_syscall cfg ipd s0))) EvClearKicked
             \<le> count_list (klog s0) EvClearKicked + 1"
proof -
  have "count_list (klog (final_state (handle_head_syscall cfg ipd s0))) EvClearKicked
          \<le> count_list (klog s0) EvClearKicked + 1"
    by (rule handle_head_syscall_clears)
  moreover have "count_list (klog (final_state (handle_root_syscall cfg ipd s0))) EvClearKicked
          \<le> count_list (klog s0) EvClearKicked + 1"
    by (rule handle_root_syscall_clears)
  moreover have "rval (regs (interposed_state (prepare_for_signal f s)))
           = (if flag_set f xn_exec_norestart then - EINTR else - ERESTARTSYS)
         \<and> \<not> kicked (w (interposed_state (prepare_for_signal f s)))
         \<and> count_list (klog (interposed_state (prepare_for_signal f s))) EvClearKicked
             = count_list (klog s) EvClearKicked + 1"
    using assms by (simp add: post_defs)
  moreover have "\<not> canceld (w s) \<longrightarrow>
               prepare_for_signal f s = Inr (interposed_state (prepare_for_signal f s))
               \<and> \<not> primary (w (interposed_state (prepare_for_signal f s)))
               \<and> klog (interposed_state (prepare_for_signal f s))
                   = klog s @ [EvClearKicked,
                               EvRelax (\<not> debugged (w s)) SIGDEBUG_MIGRATE_SIGNAL]"
    using assms by (simp add: post_defs)
  moreover have "primary (w s) \<longrightarrow>
               rval (regs (final_state (head_done cfg thread f sw ret s)))
                 = (if flag_set f xn_exec_norestart then - EINTR else - ERESTARTSYS)
               \<and> rval (regs (final_state (root_done thread f sw ret s)))
                 = (if flag_set f xn_exec_norestart then - EINTR else - ERESTARTSYS)"
    using assms by (simp add: post_defs)
  ultimately show ?thesis by blast
qed

theorem kicked_signal_interposition_witness:
  "kicked (w kicked_state) \<and> sigpending (w kicked_state)
   \<and> prepare_for_signal xn_exec_nonrestartable kicked_state
       = Inr (kicked_state\<lparr>w := demo_world\<lparr>primary := False, sigpending := True\<rparr>,
                           regs := demo_regs\<lparr>rval := - 4\<rparr>,
                           klog := [EvClearKicked, EvRelax True SIGDEBUG_MIGRATE_SIGNAL]\<rparr>)
   \<and> rval (regs (interposed_state (prepare_for_signal xn_exec_primary kicked_state))) = - 512"
  using kicked_signal_interposition [of kicked_state xn_exec_nonrestartable]
    kicked_signal_interposition [of kicked_state xn_exec_primary]
  by (simp add: kicked_state_def demo_defs post_defs flag_set_def xn_exec_nonrestartable_def
      xn_exec_primary_def xn_exec_shadow_def xn_exec_histage_def xn_exec_norestart_def
      EINTR_def ERESTARTSYS_def)

text \<open>
  C6. For a mode with the conforming bit, the resolution done by both dispatchers before
  their loop adds \<^verbatim>\<open>__xn_exec_histage\<close> when the caller has a thread control block and
  \<^verbatim>\<open>__xn_exec_lostage\<close> when it has none; it is a function of the mode and of that
  presence alone. For a mode that has neither stage bit of its own (as every conforming
  entry of the table), the resolved mode asks for the Xenomai domain if and only if the
  thread control block is present. Both loops are entered with the resolved mode, and they
  never test the conforming bit: with the bit toggled a loop does the same.
\<close>

theorem conforming_resolution:
  assumes "flag_set f xn_exec_conforming"
  shows "resolve_conforming thread f
           = f OR (if thread then xn_exec_histage else xn_exec_lostage)
         \<and> (thread \<longrightarrow> flag_set (resolve_conforming thread f) xn_exec_histage)
         \<and> (\<not> thread \<longrightarrow> flag_set (resolve_conforming thread f) xn_exec_lostage)
         \<and> (\<not> flag_set f xn_exec_histage \<longrightarrow>
               (flag_set (resolve_conforming thread f) xn_exec_histage \<longleftrightarrow> thread))
         \<and> (\<not> flag_set f xn_exec_lostage \<longrightarrow>
               (flag_set (resolve_conforming thread f) xn_exec_lostage \<longleftrightarrow> \<not> thread))
         \<and> (syscall_p (regs s) \<and> 0 \<le> sysnr (regs s) \<and> sysnr (regs s) < nr_cobalt_syscalls cfg
              \<and> cobalt_sysmodes cfg (sysnr (regs s)) = f
              \<and> \<not> gate_denied cfg (cur_process (w (lookup_process s))) (cur_thread (w s)) f
                    (cap_sys_nice (w s)) (sysnr (regs s)) \<longrightarrow>
             handle_head_syscall cfg ipd s =
               (case head_restart cfg ipd (cobalt_syscalls cfg (sysnr (regs s)))
                       (f OR (if cur_thread (w s) then xn_exec_histage else xn_exec_lostage))
                       False (lookup_process s) of
                  HPropagate s2 \<Rightarrow> Inr (KEVENT_PROPAGATE, s2)
                | HDone ret sysflags switched s2 \<Rightarrow>
                    head_done cfg (cur_thread (w s)) sysflags switched ret s2))
         \<and> (syscall_p (regs s) \<and> 0 \<le> sysnr (regs s) \<and> sysnr (regs s) < nr_cobalt_syscalls cfg
              \<and> cobalt_sysmodes cfg (sysnr (regs s)) = f \<and> \<not> canceld (w s) \<longrightarrow>
             handle_root_syscall cfg ipd s =
               (case root_restart cfg (cobalt_syscalls cfg (sysnr (regs s)))
                       (f OR (if cur_thread (w s) then xn_exec_histage else xn_exec_lostage)) s of
                  RFailed r s1 \<Rightarrow> Inr (KEVENT_STOP, ret_handled (cur_thread (w s)) s1)
                | RDone ret sysflags switched s1 \<Rightarrow>
                    root_done (cur_thread (w s)) sysflags switched ret s1))
         \<and> head_restart cfg ipd h (g XOR xn_exec_conforming) sw s' =
               (case head_restart cfg ipd h g sw s' of
                  HPropagate s2 \<Rightarrow> HPropagate s2
                | HDone ret sysflags switched s2 \<Rightarrow>
                    HDone ret (sysflags XOR xn_exec_conforming) switched s2)
         \<and> root_restart cfg h (g XOR xn_exec_conforming) s' =
               (case root_restart cfg h g s' of
                  RFailed r s1 \<Rightarrow> RFailed r s1
                | RDone ret sysflags switched s1 \<Rightarrow>
                    RDone ret (sysflags XOR xn_exec_conforming) switched s1)"
proof -
  have r: "resolve_conforming t f = f OR (if t then xn_exec_histage else xn_exec_lostage)" for t
    using assms by (simp add: resolve_conforming_def)
  have "(thread \<longrightarrow> flag_set (resolve_conforming thread f) xn_exec_histage)
         \<and> (\<not> thread \<longrightarrow> flag_set (resolve_conforming thread f) xn_exec_lostage)
         \<and> (\<not> flag_set f xn_exec_histage \<longrightarrow>
               (flag_set (resolve_conforming thread f) xn_exec_histage \<longleftrightarrow> thread))
         \<and> (\<not> flag_set f xn_exec_lostage \<longrightarrow>
               (flag_set (resolve_conforming thread f) xn_exec_lostage \<longleftrightarrow> \<not> thread))"
    by (simp add: r flag_set_bit or_bit del: One_nat_def)
  moreover have "syscall_p (regs s) \<and> 0 \<le> sysnr (regs s) \<and> sysnr (regs s) < nr_cobalt_syscalls cfg
              \<and> cobalt_sysmodes cfg (sysnr (regs s)) = f
              \<and> \<not> gate_denied cfg (cur_process (w (lookup_process s))) (cur_thread (w s)) f
                    (cap_sys_nice (w s)) (sysnr (regs s)) \<longrightarrow>
             handle_head_syscall cfg ipd s =
               (case head_restart cfg ipd (cobalt_syscalls cfg (sysnr (regs s)))
                       (f OR (if cur_thread (w s) then xn_exec_histage else xn_exec_lostage))
                       False (lookup_process s) of
                  HPropagate s2 \<Rightarrow> Inr (KEVENT_PROPAGATE, s2)
                | HDone ret sysflags switched s2 \<Rightarrow>
                    head_done cfg (cur_thread (w s)) sysflags switched ret s2)"
    using r [of "cur_thread (w s)"]
    by (auto simp: handle_head_syscall_def Let_def lookup_process_def)
  moreover have "syscall_p (regs s) \<and> 0 \<le> sysnr (regs s) \<and> sysnr (regs s) < nr_cobalt_syscalls cfg
              \<and> cobalt_sysmodes cfg (sysnr (regs s)) = f \<and> \<not> canceld (w s) \<longrightarrow>
             handle_root_syscall cfg ipd s =
               (case root_restart cfg (cobalt_syscalls cfg (sysnr (regs s)))
                       (f OR (if cur_thread (w s) then xn_exec_histage else xn_exec_lostage)) s of
                  RFailed r s1 \<Rightarrow> Inr (KEVENT_STOP, ret_handled (cur_thread (w s)) s1)
                | RDone ret sysflags switched s1 \<Rightarrow>
                    root_done (cur_thread (w s)) sysflags switched ret s1)"
    using r [of "cur_thread (w s)"]
    by (auto simp: handle_root_syscall_def Let_def xnthread_test_cancel_def)
  ultimately show ?thesis
    using r [of thread] head_restart_ignores_conforming [of cfg ipd h g sw s']
      root_restart_ignores_conforming [of cfg h g s']
    by blast
qed

theorem conforming_resolution_witness:
  "flag_set xn_exec_probing xn_exec_conforming
   \<and> resolve_conforming True xn_exec_probing = 0x62
   \<and> resolve_conforming False xn_exec_probing = 0x61
   \<and> flag_set (resolve_conforming True xn_exec_probing) xn_exec_histage
   \<and> \<not> flag_set (resolve_conforming False xn_exec_probing) xn_exec_histage"
  using conforming_resolution [of xn_exec_probing True]
    conforming_resolution [of xn_exec_probing False]
  by (simp add: flag_set_def xn_exec_probing_def xn_exec_conforming_def xn_exec_adaptive_def
      xn_exec_histage_def xn_exec_lostage_def)

text \<open>
  C7. A recognised call whose number is outside \<^verbatim>\<open>[0, __NR_COBALT_SYSCALLS)\<close> is answered
  by the head dispatcher, whatever the domain of the caller, with \<^verbatim>\<open>-ENOSYS\<close> in the frame
  and \<^verbatim>\<open>KEVENT_STOP\<close>; nothing else changes and no handler runs (the log is as before). The
  root dispatcher has no such check: on such a number it reads outside its tables. It is
  safe because the head dispatcher propagates a recognised call only when the number is in
  range.
\<close>

theorem out_of_range_not_implemented:
  assumes "syscall_p (regs s)"
  shows "(sysnr (regs s) < 0 \<or> nr_cobalt_syscalls cfg \<le> sysnr (regs s) \<longrightarrow>
            handle_head_syscall cfg ipd s
              = Inr (KEVENT_STOP, s\<lparr>regs := (regs s)\<lparr>rval := - ENOSYS\<rparr>\<rparr>)
            \<and> klog (final_state (handle_head_syscall cfg ipd s)) = klog s
            \<and> (\<not> canceld (w s) \<longrightarrow> handle_root_syscall cfg ipd s = Inl (OutOfBounds, s)))
         \<and> (\<forall>s'. handle_head_syscall cfg ipd s = Inr (KEVENT_PROPAGATE, s') \<longrightarrow>
               0 \<le> sysnr (regs s) \<and> sysnr (regs s) < nr_cobalt_syscalls cfg)"
  using assms
  by (auto simp: handle_head_syscall_def handle_root_syscall_def xn_error_return_def
      final_state_def xnthread_test_cancel_def Let_def split: if_splits)

theorem out_of_range_not_implemented_witness:
  "syscall_p (regs (demo_state\<lparr>regs := demo_regs\<lparr>sysnr := 5\<rparr>\<rparr>))
   \<and> (5::int) \<ge> nr_cobalt_syscalls demo_config
   \<and> handle_head_syscall demo_config ipipe_root_domain
        (demo_state\<lparr>regs := demo_regs\<lparr>sysnr := 5\<rparr>\<rparr>)
       = Inr (KEVENT_STOP, demo_state\<lparr>regs := demo_regs\<lparr>sysnr := 5, rval := - 38\<rparr>\<rparr>)
   \<and> handle_head_syscall demo_config xnsched_realtime_domain
        (demo_state\<lparr>regs := demo_regs\<lparr>sysnr := - 1\<rparr>\<rparr>)
       = Inr (KEVENT_STOP, demo_state\<lparr>regs := demo_regs\<lparr>sysnr := - 1, rval := - 38\<rparr>\<rparr>)
   \<and> handle_root_syscall demo_config ipipe_root_domain
        (demo_state\<lparr>regs := demo_regs\<lparr>sysnr := 5\<rparr>\<rparr>)
       = Inl (OutOfBounds, demo_state\<lparr>regs := demo_regs\<lparr>sysnr := 5\<rparr>\<rparr>)"
  using out_of_range_not_implemented
          [of "demo_state\<lparr>regs := demo_regs\<lparr>sysnr := 5\<rparr>\<rparr>" demo_config ipipe_root_domain]
        out_of_range_not_implemented
          [of "demo_state\<lparr>regs := demo_regs\<lparr>sysnr := - 1\<rparr>\<rparr>" demo_config
              xnsched_realtime_domain]
  by (simp add: demo_defs ENOSYS_def)

text \<open>
  C8, as the code has it. With cancellation requested, \<^verbatim>\<open>prepare_for_signal\<close> does not
  return. It first does the bookkeeping of a kick: when \<^verbatim>\<open>XNKICKED\<close> is set and a signal
  is pending the status of the frame is rewritten to \<^verbatim>\<open>-EINTR\<close> or \<^verbatim>\<open>-ERESTARTSYS\<close>, and
  \<^verbatim>\<open>XNKICKED\<close> is cleared (with \<^verbatim>\<open>XNKICKED\<close> clear the frame is left as it is). Then the
  thread exits through \<^verbatim>\<open>xnthread_test_cancel\<close>, before the relax for signal delivery and
  before any switch back, so a dispatcher whose interposition runs returns no event and no
  status to the caller. The root dispatcher also tests for cancellation on entry, before it
  looks at the frame.
\<close>

theorem cancellation_precedence:
  assumes "canceld (w s)"
  shows "prepare_for_signal f s = Inl (ThreadExit, interposed_state (prepare_for_signal f s))
         \<and> klog (interposed_state (prepare_for_signal f s))
             = klog s @ (if kicked (w s) then [EvClearKicked] else []) @ [EvCancel]
         \<and> rval (regs (interposed_state (prepare_for_signal f s)))
             = (if kicked (w s) \<and> sigpending (w s)
                then (if flag_set f xn_exec_norestart then - EINTR else - ERESTARTSYS)
                else rval (regs s))
         \<and> \<not> kicked (w (interposed_state (prepare_for_signal f s)))
         \<and> primary (w (interposed_state (prepare_for_signal f s))) = primary (w s)
         \<and> (primary (w s) \<and> sigpending (w s) \<longrightarrow>
               head_done cfg thread f sw ret s
                 = Inl (ThreadExit, interposed_state (prepare_for_signal f (xn_status_return ret s)))
               \<and> root_done thread f sw ret s
                 = Inl (ThreadExit, interposed_state (prepare_for_signal f (xn_status_return ret s))))
         \<and> handle_root_syscall cfg ipd s = Inl (ThreadExit, s\<lparr>klog := klog s @ [EvCancel]\<rparr>)"
  using assms by (simp add: post_defs handle_root_syscall_def)

theorem cancellation_precedence_witness:
  "canceld (w cancelled_state) \<and> sigpending (w cancelled_state) \<and> primary (w cancelled_state)
   \<and> head_done demo_config True xn_exec_primary False 5 cancelled_state
       = Inl (ThreadExit,
              cancelled_state\<lparr>w := demo_world\<lparr>sigpending := True, canceld := True\<rparr>,
                              regs := demo_regs\<lparr>rval := - 512\<rparr>,
                              klog := [EvClearKicked, EvCancel]\<rparr>)
   \<and> handle_root_syscall demo_config ipipe_root_domain cancelled_state
       = Inl (ThreadExit, cancelled_state\<lparr>klog := [EvCancel]\<rparr>)"
  using cancellation_precedence [of cancelled_state xn_exec_primary demo_config True False 5
      ipipe_root_domain]
  by (simp add: cancelled_state_def demo_defs post_defs flag_set_def xn_exec_primary_def
      xn_exec_shadow_def xn_exec_histage_def xn_exec_norestart_def ERESTARTSYS_def)

text \<open>
  C8 as stated fails: for a thread that was kicked, with a signal pending and cancellation
  requested, the restart logic does not stop at once. The status 0 of the frame is
  rewritten to \<^verbatim>\<open>-ERESTARTSYS\<close> and \<^verbatim>\<open>XNKICKED\<close> is cleared, and only then is the thread
  tested for cancellation.
\<close>

theorem cancellation_counterexample:
  "canceld (w cancelled_state) \<and> sigpending (w cancelled_state) \<and> kicked (w cancelled_state)
   \<and> rval (regs cancelled_state) = 0
   \<and> prepare_for_signal xn_exec_primary cancelled_state
       = Inl (ThreadExit,
              cancelled_state\<lparr>w := demo_world\<lparr>sigpending := True, canceld := True\<rparr>,
                              regs := demo_regs\<lparr>rval := - 512\<rparr>,
                              klog := [EvClearKicked, EvCancel]\<rparr>)"
  by (simp add: cancelled_state_def demo_defs mode_defs post_defs ERESTARTSYS_def)

text \<open>
  C9, as the code has it. Take a weak thread with no nested resource, no signal pending and
  \<^verbatim>\<open>XNKICKED\<close> clear that is in primary mode when the handler has returned. Both
  dispatchers complete the call with the handler's status. The root dispatcher always
  relaxes the thread. The head dispatcher relaxes it when \<^verbatim>\<open>switched\<close> is clear; when
  \<^verbatim>\<open>switched\<close> is set it only clears \<^verbatim>\<open>switched\<close> and the thread stays in primary mode.
\<close>

theorem weak_thread_paths:
  assumes "primary (w s)" and "weak (w s)" and "res_count (w s) = 0"
    and "\<not> sigpending (w s)" and "\<not> kicked (w s)"
  shows "root_done thread f sw ret s
           = Inr (KEVENT_STOP,
                  ret_handled (cur_thread (w s))
                    (xnthread_relax False SIGDEBUG_NONE (xn_status_return ret s)))
         \<and> head_done cfg thread f False ret s
           = Inr (KEVENT_STOP,
                  ret_handled thread
                    (xnthread_relax False SIGDEBUG_NONE (xn_status_return ret s)))
         \<and> head_done cfg thread f True ret s
           = Inr (KEVENT_STOP, ret_handled thread (xn_status_return ret s))
         \<and> rval (regs (final_state (root_done thread f sw ret s))) = ret
         \<and> rval (regs (final_state (head_done cfg thread f sw ret s))) = ret
         \<and> \<not> primary (w (final_state (root_done thread f sw ret s)))
         \<and> (primary (w (final_state (head_done cfg thread f sw ret s))) \<longleftrightarrow> sw)"
  using assms by (auto simp: post_defs flag_set_bit or_bit)

theorem weak_thread_paths_witness:
  "primary (w weak_state) \<and> weak (w weak_state) \<and> res_count (w weak_state) = 0
   \<and> \<not> sigpending (w weak_state) \<and> \<not> kicked (w weak_state)
   \<and> head_done demo_config True xn_exec_init False 0 weak_state
       = Inr (KEVENT_STOP,
              weak_state\<lparr>w := demo_world\<lparr>weak := True, primary := False, xsc := 1\<rparr>,
                         klog := [EvRelax False SIGDEBUG_NONE]\<rparr>)
   \<and> root_done True xn_exec_init False 0 weak_state
       = Inr (KEVENT_STOP,
              weak_state\<lparr>w := demo_world\<lparr>weak := True, primary := False, xsc := 1\<rparr>,
                         klog := [EvRelax False SIGDEBUG_NONE]\<rparr>)"
  using weak_thread_paths [of weak_state True xn_exec_init False 0 demo_config]
  by (simp add: weak_state_def demo_defs post_defs)

text \<open>
  C9 as stated fails: from the same state after the handler, with \<^verbatim>\<open>switched\<close> set, the
  head dispatcher leaves the thread in primary mode and the root dispatcher relaxes it. So
  do the whole dispatchers on call 4 of a weak thread, whose handler returns 0 with the
  caller in primary mode.
\<close>

theorem weak_thread_counterexample:
  "primary (w weak_state) \<and> weak (w weak_state) \<and> res_count (w weak_state) = 0
   \<and> \<not> sigpending (w weak_state) \<and> \<not> kicked (w weak_state) \<and> \<not> canceld (w weak_state)
   \<and> head_done demo_config True xn_exec_init True 0 weak_state
       = Inr (KEVENT_STOP, weak_state\<lparr>w := demo_world\<lparr>weak := True, xsc := 1\<rparr>\<rparr>)
   \<and> root_done True xn_exec_init True 0 weak_state
       = Inr (KEVENT_STOP,
              weak_state\<lparr>w := demo_world\<lparr>weak := True, primary := False, xsc := 1\<rparr>,
                         klog := [EvRelax False SIGDEBUG_NONE]\<rparr>)
   \<and> handle_head_syscall demo_config xnsched_realtime_domain weak_state
       = Inr (KEVENT_STOP,
              weak_state\<lparr>w := demo_world\<lparr>weak := True, xsc := 1\<rparr>,
                         klog := [EvRelax True SIGDEBUG_MIGRATE_SYSCALL, EvHandler False]\<rparr>)
   \<and> handle_root_syscall demo_config ipipe_root_domain
        (weak_state\<lparr>w := demo_world\<lparr>weak := True, primary := False\<rparr>\<rparr>)
       = Inr (KEVENT_STOP,
              weak_state\<lparr>w := demo_world\<lparr>weak := True, primary := False, xsc := 1\<rparr>,
                         klog := [EvHandler False, EvRelax False SIGDEBUG_NONE]\<rparr>)"
  by (simp add: weak_state_def demo_defs run_defs mode_defs post_defs)

text \<open>
  C10. When \<^verbatim>\<open>prepare_for_signal\<close> runs with \<^verbatim>\<open>XNKICKED\<close> clear, the frame is left as it
  is and \<^verbatim>\<open>XNKICKED\<close> is not touched; the thread is still tested for cancellation, and
  relaxed with the cause \<^verbatim>\<open>SIGDEBUG_MIGRATE_SIGNAL\<close> and no notification. Both dispatchers
  reach this with a signal pending after the handler: the call ends with the handler's
  status and the thread relaxed.
\<close>

theorem signal_without_kick:
  assumes "\<not> kicked (w s)"
  shows "prepare_for_signal f s =
           (if canceld (w s) then Inl (ThreadExit, s\<lparr>klog := klog s @ [EvCancel]\<rparr>)
            else Inr (xnthread_relax False SIGDEBUG_MIGRATE_SIGNAL s))
         \<and> regs (interposed_state (prepare_for_signal f s)) = regs s
         \<and> \<not> kicked (w (interposed_state (prepare_for_signal f s)))
         \<and> count_list (klog (interposed_state (prepare_for_signal f s))) EvClearKicked
             = count_list (klog s) EvClearKicked
         \<and> (\<not> canceld (w s) \<longrightarrow> \<not> primary (w (interposed_state (prepare_for_signal f s))))
         \<and> (primary (w s) \<and> sigpending (w s) \<and> \<not> canceld (w s) \<longrightarrow>
               head_done cfg thread f sw ret s =
                 Inr (KEVENT_STOP,
                      ret_handled thread
                        (xnthread_relax False SIGDEBUG_MIGRATE_SIGNAL (xn_status_return ret s)))
               \<and> root_done thread f sw ret s =
                 Inr (KEVENT_STOP,
                      ret_handled (cur_thread (w s))
                        (xnthread_relax False SIGDEBUG_MIGRATE_SIGNAL (xn_status_return ret s))))"
  using assms by (simp add: post_defs)

theorem signal_without_kick_witness:
  "\<not> kicked (w signalled_state) \<and> sigpending (w signalled_state)
   \<and> primary (w signalled_state) \<and> \<not> canceld (w signalled_state)
   \<and> head_done demo_config True xn_exec_primary False 5 signalled_state
       = Inr (KEVENT_STOP,
              signalled_state\<lparr>w := demo_world\<lparr>primary := False, sigpending := True, xsc := 1\<rparr>,
                              regs := demo_regs\<lparr>rval := 5\<rparr>,
                              klog := [EvRelax False SIGDEBUG_MIGRATE_SIGNAL]\<rparr>)
   \<and> root_done True xn_exec_primary True 5 signalled_state
       = Inr (KEVENT_STOP,
              signalled_state\<lparr>w := demo_world\<lparr>primary := False, sigpending := True, xsc := 1\<rparr>,
                              regs := demo_regs\<lparr>rval := 5\<rparr>,
                              klog := [EvRelax False SIGDEBUG_MIGRATE_SIGNAL]\<rparr>)"
  using signal_without_kick [of signalled_state xn_exec_primary demo_config True False 5]
    signal_without_kick [of signalled_state xn_exec_primary demo_config True True 5]
  by (simp add: signalled_state_def demo_defs post_defs)

end
